theory Spec2Isabelle
  imports Complex_Main "HOL-Library.Monad_Syntax" "HOL-Library.Sublist"
begin

section \<open>JavaScript values\<close>

text \<open>
  The error-handling code of the frontend inspects values of type \<^verbatim>\<open>unknown\<close> and
  \<^verbatim>\<open>any\<close> by probing their properties, so the embedding starts from a datatype of
  JavaScript values. Numbers are the integral finite ones (HTTP statuses, page numbers);
  strings are lists of code units below 256; objects are lists of own properties, the
  first binding of a key being the visible one. An object is either a plain object or an
  instance of \<^verbatim>\<open>Error\<close> (or of a subclass such as \<^verbatim>\<open>AxiosError\<close>). Symbols,
  accessors and proxies are not represented.
\<close>

datatype objclass = PlainObject | ErrorInstance

datatype jsval =
    Undefined
  | Null
  | Bool bool
  | Num int
  | Str string
  | Arr "jsval list"
  | Obj objclass "(string \<times> jsval) list"

text \<open>Truthiness, as tested by \<^verbatim>\<open>if (v)\<close>, \<^verbatim>\<open>!v\<close>, \<^verbatim>\<open>a && b\<close> and \<^verbatim>\<open>a || b\<close>.\<close>

fun truthy :: "jsval \<Rightarrow> bool" where
  "truthy Undefined = False"
| "truthy Null = False"
| "truthy (Bool b) = b"
| "truthy (Num n) = (n \<noteq> 0)"
| "truthy (Str s) = (s \<noteq> [])"
| "truthy (Arr xs) = True"
| "truthy (Obj c ps) = True"









subsection \<open>Conversion to string\<close>







section \<open>Error formatter (utils/errorHandler.ts)\<close>

text \<open>
  The interface \<^verbatim>\<open>ApiError\<close>. The optional fields hold \<^verbatim>\<open>undefined\<close> when absent. The
  fields are JavaScript values and not strings and numbers: \<^verbatim>\<open>formatError\<close> copies them
  from a payload cast to \<^verbatim>\<open>any\<close>.
\<close>

record ApiError =
  message :: jsval
  code :: jsval
  status :: jsval
  details :: jsval




text \<open>
  \<^verbatim>\<open>getUserFriendlyErrorMessage\<close>: the switch on the status, entered when the status is
  truthy, compares with \<^verbatim>\<open>===\<close>; when no case returns, the switch on the code follows,
  and then the raw message.
\<close>

definition status_sentence :: "jsval \<Rightarrow> string option" where
  "status_sentence s =
     (if s = Num 400 then Some ''The request contains invalid data. Please check your input and try again.''
      else if s = Num 401 then Some ''You need to be logged in to perform this action.''
      else if s = Num 403 then Some ''You don't have permission to perform this action.''
      else if s = Num 404 then Some ''The requested resource was not found.''
      else if s = Num 409 then Some ''This operation couldn't be completed due to a conflict with existing data.''
      else if s = Num 422 then Some ''The submitted data is invalid. Please check your input and try again.''
      else if s = Num 429 then Some ''Too many requests. Please try again later.''
      else if s = Num 500 then Some ''An internal server error occurred. Please try again later.''
      else if s = Num 503 then Some ''The service is temporarily unavailable. Please try again later.''
      else None)"

definition code_sentence :: "jsval \<Rightarrow> string option" where
  "code_sentence c =
     (if c = Str ''NETWORK_ERROR'' then Some ''Unable to connect to the server. Please check your internet connection.''
      else if c = Str ''TIMEOUT_ERROR'' then Some ''The request timed out. Please try again later.''
      else if c = Str ''DUPLICATE_SERIAL'' then Some ''An asset with this serial number already exists.''
      else None)"

definition getUserFriendlyErrorMessage :: "ApiError \<Rightarrow> jsval" where
  "getUserFriendlyErrorMessage error =
     (case (if truthy (status error) then status_sentence (status error) else None) of
        Some s \<Rightarrow> Str s
      | None \<Rightarrow>
          (case (if truthy (code error) then code_sentence (code error) else None) of
             Some s \<Rightarrow> Str s
           | None \<Rightarrow> message error))"



section \<open>HTTP clients and their response interceptors\<close>



section \<open>Resource API (services/assetApi.ts)\<close>

subsection \<open>The typed exception\<close>

record ApiException =
  name :: string
  status :: jsval
  code :: jsval
  message :: string
  details :: jsval





subsection \<open>Requests\<close>

record CreateAssetRequest =
  name :: "string option"
  description :: "string option"
  category :: "string option"
  serialNumber :: "string option"
  purchaseDate :: "string option"
  purchasePrice :: "real option"
  status :: "string option"

type_synonym UpdateAssetRequest = CreateAssetRequest

record AssetFilters =
  search :: "string option"
  category :: "string option"
  status :: "string option"
  page :: "int option"
  pageSize :: "int option"

datatype request =
    GET string
  | POST string CreateAssetRequest
  | PUT string UpdateAssetRequest
  | DELETE string




subsection \<open>Query parameters\<close>










text \<open>
  The conditions \<^verbatim>\<open>if (filters?.search)\<close> and \<^verbatim>\<open>if (filters?.page)\<close>: truthiness of an
  optional string and of an optional number.
\<close>

definition truthy_string :: "string option \<Rightarrow> bool" where
  "truthy_string v = (case v of None \<Rightarrow> False | Some s \<Rightarrow> s \<noteq> [])"





subsection \<open>Operations\<close>








subsection \<open>Local validation\<close>

text \<open>
  \<^verbatim>\<open>String.prototype.trim\<close> removes the white space at both ends; among the code units
  below 256 these are tab, line feed, vertical tab, form feed, carriage return, space and
  the no-break space.
\<close>

definition is_whitespace :: "char \<Rightarrow> bool" where
  "is_whitespace c = (of_char c \<in> set [9, 10, 11, 12, 13, 32, 160 :: nat])"

definition trim :: "string \<Rightarrow> string" where
  "trim s = rev (dropWhile is_whitespace (rev (dropWhile is_whitespace s)))"

text \<open>
  The fields of the payload are optional here, \<open>None\<close> standing for a property that is
  missing (\<^verbatim>\<open>undefined\<close>), since the function guards its reads with \<^verbatim>\<open>?.\<close> and \<^verbatim>\<open>!\<close>;
  for the price \<open>None\<close> also stands for \<^verbatim>\<open>NaN\<close>, which behaves as \<^verbatim>\<open>undefined\<close> does in
  the comparison \<^verbatim>\<open><= 0\<close>: the comparison is false.
\<close>

definition not_string :: "string option \<Rightarrow> bool" where
  "not_string v = (case v of None \<Rightarrow> True | Some s \<Rightarrow> s = [])"

definition le_zero :: "real option \<Rightarrow> bool" where
  "le_zero v = (case v of None \<Rightarrow> False | Some x \<Rightarrow> x \<le> 0)"

definition validateAssetData :: "CreateAssetRequest \<Rightarrow> string list" where
  "validateAssetData asset =
     (let errors = [];
          errors = (if not_string (map_option trim (name asset))
                    then errors @ [''Asset name is required''] else errors);
          errors = (if not_string (map_option trim (CreateAssetRequest.category asset))
                    then errors @ [''Category is required''] else errors);
          errors = (if not_string (map_option trim (serialNumber asset))
                    then errors @ [''Serial number is required''] else errors);
          errors = (if not_string (purchaseDate asset)
                    then errors @ [''Purchase date is required''] else errors);
          errors = (if le_zero (purchasePrice asset)
                    then errors @ [''Purchase price must be greater than 0''] else errors);
          errors = (if not_string (CreateAssetRequest.status asset)
                    then errors @ [''Status is required''] else errors)
      in errors)"


section \<open>Data hooks (hooks/useAssets.ts)\<close>


record 'd hook_state =
  data :: 'd
  loading :: bool
  error :: "string option"













section \<open>Toast registry (context/ToastContext.tsx)\<close>

datatype ToastType = Success | Error | Info | Warning

text \<open>
  A toast of the registry. The field \<^verbatim>\<open>onClose\<close> is the constant empty function and is
  left out; the identifier is produced by \<^verbatim>\<open>uuidv4()\<close> and is an argument of \<open>addToast\<close>.
\<close>

record ToastProps =
  id' :: string
  message :: string
  type :: ToastType
  duration :: int

definition addToast ::
    "ToastProps list \<Rightarrow> string \<Rightarrow> string \<Rightarrow> ToastType \<Rightarrow> int option \<Rightarrow> ToastProps list \<times> string" where
  "addToast prevToasts uuid msg ty dur =
     (prevToasts @ [\<lparr>id' = uuid, message = msg, type = ty,
                     duration = (case dur of None \<Rightarrow> 5000 | Some d \<Rightarrow> d)\<rparr>],
      uuid)"

definition removeToast :: "string \<Rightarrow> ToastProps list \<Rightarrow> ToastProps list" where
  "removeToast i prevToasts = filter (\<lambda>toast. id' toast \<noteq> i) prevToasts"

definition clearAllToasts :: "ToastProps list \<Rightarrow> ToastProps list" where
  "clearAllToasts prevToasts = []"


section \<open>Shapes of inputs and contracts\<close>














text \<open>A string that is present and has a character that is not white space.\<close>

definition nonblank :: "string option \<Rightarrow> bool" where
  "nonblank v = (case v of None \<Rightarrow> False | Some s \<Rightarrow> \<exists>c \<in> set s. \<not> is_whitespace c)"



section \<open>Concrete inputs\<close>








text \<open>The formatted duplicate-serial error, with the status 409 and without a status.\<close>

definition duplicate_serial_conflict :: ApiError where
  "duplicate_serial_conflict =
     \<lparr>ApiError.message = Str ''Serial number SN-1 is taken'', code = Str ''DUPLICATE_SERIAL'',
      status = Num 409, details = Undefined\<rparr>"

definition duplicate_serial_unmapped :: ApiError where
  "duplicate_serial_unmapped =
     \<lparr>ApiError.message = Str ''Serial number SN-1 is taken'', code = Str ''DUPLICATE_SERIAL'',
      status = Undefined, details = Undefined\<rparr>"

definition valid_request :: CreateAssetRequest where
  "valid_request =
     \<lparr>name = Some ''MacBook Pro'', description = Some ''16-inch laptop'',
      category = Some ''Electronics'', serialNumber = Some ''MBP2024001'',
      purchaseDate = Some ''2024-01-15'', purchasePrice = Some 2499, status = Some ''active''\<rparr>"

text \<open>A payload whose name is one space.\<close>

definition blank_name_request :: CreateAssetRequest where
  "blank_name_request =
     \<lparr>name = Some '' '', description = Some [], category = Some ''Electronics'',
      serialNumber = Some ''SN-1'', purchaseDate = Some ''2024-01-15'',
      purchasePrice = Some 10, status = Some ''active''\<rparr>"



definition saved_toast :: ToastProps where
  "saved_toast = \<lparr>id' = ''a'', message = ''Saved'', type = Success, duration = 5000\<rparr>"

section \<open>Auxiliary facts\<close>



subsection \<open>Property reads\<close>













subsection \<open>The formatter as a case analysis\<close>





subsection \<open>The client and the exception\<close>








subsection \<open>Validation and query parameters\<close>

lemma trim_empty_iff: "trim s = [] \<longleftrightarrow> (\<forall>c \<in> set s. is_whitespace c)"
proof -
  have "trim s = [] \<longleftrightarrow> dropWhile is_whitespace (rev (dropWhile is_whitespace s)) = []"
    by (simp add: trim_def)
  also have "\<dots> \<longleftrightarrow> (\<forall>c \<in> set (dropWhile is_whitespace s). is_whitespace c)"
    by simp
  also have "\<dots> \<longleftrightarrow> dropWhile is_whitespace s = []"
  proof
    assume a: "\<forall>c \<in> set (dropWhile is_whitespace s). is_whitespace c"
    show "dropWhile is_whitespace s = []"
    proof (cases "dropWhile is_whitespace s")
      case Nil
      then show ?thesis .
    next
      case (Cons x xs)
      then have "\<not> is_whitespace x"
        by (metis hd_dropWhile list.sel(1) list.distinct(1))
      with a Cons show ?thesis by simp
    qed
  next
    assume "dropWhile is_whitespace s = []"
    then show "\<forall>c \<in> set (dropWhile is_whitespace s). is_whitespace c"
      by (metis empty_iff empty_set)
  qed
  also have "\<dots> \<longleftrightarrow> (\<forall>c \<in> set s. is_whitespace c)"
    by simp
  finally show ?thesis .
qed

lemma truthy_trim_nonblank: "truthy_string (map_option trim v) \<longleftrightarrow> nonblank v"
  by (cases v) (simp_all add: truthy_string_def nonblank_def trim_empty_iff)

lemma not_string_truthy: "not_string v \<longleftrightarrow> \<not> truthy_string v"
  by (cases v) (simp_all add: not_string_def truthy_string_def)







subsection \<open>Hooks\<close>


section \<open>Properties\<close>

subsection \<open>Data hooks\<close>




subsection \<open>Resource API\<close>



text \<open>
  C7 (amended). For a payload whose price is a number, \<^verbatim>\<open>validateAssetData\<close> returns the
  empty list exactly when name, category and serial number each contain a character that
  is not white space, purchase date and status are non-empty, and the price is above 0;
  and every requirement that fails puts the message naming its field in the list. The
  function depends on the payload alone.
\<close>

theorem validateAssetData_valid_iff:
  assumes "purchasePrice a = Some p"
  shows "(validateAssetData a = [] \<longleftrightarrow>
            nonblank (CreateAssetRequest.name a) \<and> nonblank (CreateAssetRequest.category a)
            \<and> nonblank (serialNumber a) \<and> truthy_string (purchaseDate a)
            \<and> truthy_string (CreateAssetRequest.status a) \<and> 0 < p)
         \<and> (\<not> nonblank (CreateAssetRequest.name a)
              \<longrightarrow> ''Asset name is required'' \<in> set (validateAssetData a))
         \<and> (\<not> nonblank (CreateAssetRequest.category a)
              \<longrightarrow> ''Category is required'' \<in> set (validateAssetData a))
         \<and> (\<not> nonblank (serialNumber a)
              \<longrightarrow> ''Serial number is required'' \<in> set (validateAssetData a))
         \<and> (\<not> truthy_string (purchaseDate a)
              \<longrightarrow> ''Purchase date is required'' \<in> set (validateAssetData a))
         \<and> (p \<le> 0 \<longrightarrow> ''Purchase price must be greater than 0'' \<in> set (validateAssetData a))
         \<and> (\<not> truthy_string (CreateAssetRequest.status a)
              \<longrightarrow> ''Status is required'' \<in> set (validateAssetData a))"
  using assms
  by (auto simp: validateAssetData_def Let_def not_string_truthy truthy_trim_nonblank le_zero_def)

theorem validateAssetData_valid_iff_witness:
  "purchasePrice valid_request = Some 2499 \<and> validateAssetData valid_request = []"
  using validateAssetData_valid_iff [of valid_request 2499]
  by (simp add: valid_request_def nonblank_def truthy_string_def is_whitespace_def)

text \<open>
  The claim as stated fails on a name of one space: every field is non-empty and the price
  is above 0, and the list is not empty.
\<close>

theorem validateAssetData_blank_name_counterexample:
  "CreateAssetRequest.name blank_name_request = Some '' '' \<and> '' '' \<noteq> []
   \<and> CreateAssetRequest.category blank_name_request = Some ''Electronics''
   \<and> serialNumber blank_name_request = Some ''SN-1''
   \<and> purchaseDate blank_name_request = Some ''2024-01-15''
   \<and> CreateAssetRequest.status blank_name_request = Some ''active''
   \<and> purchasePrice blank_name_request = Some 10 \<and> (0::real) < 10
   \<and> validateAssetData blank_name_request = [''Asset name is required'']"
  by (simp add: validateAssetData_def blank_name_request_def not_string_def le_zero_def trim_def
        is_whitespace_def)



subsection \<open>Error formatter\<close>




text \<open>
  C4 (amended). \<^verbatim>\<open>getUserFriendlyErrorMessage\<close> returns the curated sentence of the status
  for each of the statuses 400, 401, 403, 404, 409, 422, 429, 500 and 503, whatever the
  code. Only for an error whose status is none of these, it returns the curated sentence
  of the codes \<^verbatim>\<open>NETWORK_ERROR\<close>, \<^verbatim>\<open>TIMEOUT_ERROR\<close> and \<^verbatim>\<open>DUPLICATE_SERIAL\<close>, and the raw
  message for any other code.
\<close>

theorem getUserFriendlyErrorMessage_table:
  "(ApiError.status e = Num 400 \<longrightarrow> getUserFriendlyErrorMessage e =
      Str ''The request contains invalid data. Please check your input and try again.'')
   \<and> (ApiError.status e = Num 401 \<longrightarrow> getUserFriendlyErrorMessage e =
      Str ''You need to be logged in to perform this action.'')
   \<and> (ApiError.status e = Num 403 \<longrightarrow> getUserFriendlyErrorMessage e =
      Str ''You don't have permission to perform this action.'')
   \<and> (ApiError.status e = Num 404 \<longrightarrow> getUserFriendlyErrorMessage e =
      Str ''The requested resource was not found.'')
   \<and> (ApiError.status e = Num 409 \<longrightarrow> getUserFriendlyErrorMessage e =
      Str ''This operation couldn't be completed due to a conflict with existing data.'')
   \<and> (ApiError.status e = Num 422 \<longrightarrow> getUserFriendlyErrorMessage e =
      Str ''The submitted data is invalid. Please check your input and try again.'')
   \<and> (ApiError.status e = Num 429 \<longrightarrow> getUserFriendlyErrorMessage e =
      Str ''Too many requests. Please try again later.'')
   \<and> (ApiError.status e = Num 500 \<longrightarrow> getUserFriendlyErrorMessage e =
      Str ''An internal server error occurred. Please try again later.'')
   \<and> (ApiError.status e = Num 503 \<longrightarrow> getUserFriendlyErrorMessage e =
      Str ''The service is temporarily unavailable. Please try again later.'')
   \<and> (ApiError.status e \<notin> set (map Num [400, 401, 403, 404, 409, 422, 429, 500, 503]) \<longrightarrow>
        (ApiError.code e = Str ''NETWORK_ERROR'' \<longrightarrow> getUserFriendlyErrorMessage e =
           Str ''Unable to connect to the server. Please check your internet connection.'')
        \<and> (ApiError.code e = Str ''TIMEOUT_ERROR'' \<longrightarrow> getUserFriendlyErrorMessage e =
           Str ''The request timed out. Please try again later.'')
        \<and> (ApiError.code e = Str ''DUPLICATE_SERIAL'' \<longrightarrow> getUserFriendlyErrorMessage e =
           Str ''An asset with this serial number already exists.'')
        \<and> (ApiError.code e \<notin> set (map Str [''NETWORK_ERROR'', ''TIMEOUT_ERROR'', ''DUPLICATE_SERIAL''])
            \<longrightarrow> getUserFriendlyErrorMessage e = ApiError.message e))"
  by (simp add: getUserFriendlyErrorMessage_def status_sentence_def code_sentence_def)

theorem getUserFriendlyErrorMessage_table_witness:
  "ApiError.status duplicate_serial_unmapped
     \<notin> set (map Num [400, 401, 403, 404, 409, 422, 429, 500, 503])
   \<and> ApiError.code duplicate_serial_unmapped = Str ''DUPLICATE_SERIAL''
   \<and> getUserFriendlyErrorMessage duplicate_serial_unmapped =
       Str ''An asset with this serial number already exists.''"
  using getUserFriendlyErrorMessage_table [of duplicate_serial_unmapped]
  by (simp add: duplicate_serial_unmapped_def)

text \<open>
  The claim as stated fails on the duplicate-serial error that comes with the status 409:
  the sentence returned is the one of the status.
\<close>

theorem duplicate_serial_conflict_counterexample:
  "ApiError.code duplicate_serial_conflict = Str ''DUPLICATE_SERIAL''
   \<and> getUserFriendlyErrorMessage duplicate_serial_conflict =
       Str ''This operation couldn't be completed due to a conflict with existing data.''
   \<and> getUserFriendlyErrorMessage duplicate_serial_conflict \<noteq>
       Str ''An asset with this serial number already exists.''"
  by (simp add: duplicate_serial_conflict_def getUserFriendlyErrorMessage_def status_sentence_def
        code_sentence_def)







subsection \<open>HTTP clients\<close>




subsection \<open>Toast registry\<close>

text \<open>
  C9. Removing a toast twice leaves the registry as removing it once does, and removing an
  identifier that no toast of the registry has leaves the registry as it is, with its
  size and the order of its toasts.
\<close>

theorem removeToast_idempotent:
  "removeToast i (removeToast i toasts) = removeToast i toasts
   \<and> (i \<notin> set (map id' toasts) \<longrightarrow> removeToast i toasts = toasts)"
proof
  show "removeToast i (removeToast i toasts) = removeToast i toasts"
    by (simp add: removeToast_def)
next
  show "i \<notin> set (map id' toasts) \<longrightarrow> removeToast i toasts = toasts"
    by (induction toasts) (auto simp: removeToast_def)
qed

theorem removeToast_idempotent_witness:
  "''b'' \<notin> set (map id' [saved_toast]) \<and> removeToast ''b'' [saved_toast] = [saved_toast]"
  using removeToast_idempotent [of "''b''" "[saved_toast]"]
  by (simp add: saved_toast_def)


end
